theory Spec2Isabelle
  imports Complex_Main
begin

section \<open>Data model (types.ts)\<close>

text \<open>
  The enum \<^verbatim>\<open>EncounterStatus\<close> and the tag vocabulary \<^verbatim>\<open>EncounterTag\<close>
  are closed sums; the interfaces are records. A JavaScript \<^verbatim>\<open>number\<close> that holds a
  coordinate is a real (a finite double; the clustering, which computes with coordinates,
  rounds as the source does), one that holds a counter, a zoom level or a clock reading
  is an integer or a natural number. An optional field is an \<open>option\<close>.
  Field names follow the source; \<^verbatim>\<open>id\<close>, \<^verbatim>\<open>text\<close> and \<^verbatim>\<open>timestamp\<close> carry the
  name of their interface because HOL has one name space for all record fields.
\<close>

datatype EncounterStatus = PENDING | LIKED_BY_ME | LIKED_BY_THEM | MATCHED | HIDDEN

datatype EncounterTag =
  Flechazo | Cruzamos_miradas | Interes | Curiosidad | Me_atraes | Me_gustas

datatype Gender = Male | Female | Other

record Location =
  lat :: real
  lng :: real

record UserProfile =
  profileId :: string
  name :: string
  age :: "int option"
  gender :: "Gender option"
  bio :: string
  quickMessage :: "string option"
  images :: "string list"
  coverImage :: "string option"
  isCurrentUser :: bool

record Encounter =
  encId :: string
  userId :: string
  userProfile :: UserProfile
  title :: string
  description :: string
  location :: Location
  timestamp :: nat
  image :: "string option"
  status :: EncounterStatus
  distance :: "real option"
  tags :: "EncounterTag list"

record ChatMessage =
  msgId :: string
  senderId :: string
  msgText :: string
  msgTimestamp :: nat

record Chat =
  encounterId :: string
  partnerName :: string
  partnerImage :: "string option"
  messages :: "ChatMessage list"
  unreadCount :: nat

text \<open>\<^verbatim>\<open>xs[0]\<close> of JavaScript: \<^verbatim>\<open>undefined\<close> on the empty array.\<close>

definition first_image :: "string list \<Rightarrow> string option" where
  "first_image xs = (case xs of [] \<Rightarrow> None | x # _ \<Rightarrow> Some x)"

section \<open>Visibility filter (App.tsx, visibleEncounters)\<close>

text \<open>
  \<^verbatim>\<open>getDistanceInMeters\<close> and \<^verbatim>\<open>MATCH_RADIUS\<close> come from \<^verbatim>\<open>utils/geo\<close>, which is
  not among the sources at hand; the filter takes both as parameters. \<^verbatim>\<open>Array.some\<close>
  is \<open>list_ex\<close>, \<^verbatim>\<open>Array.filter\<close> is \<open>filter\<close>.
\<close>

definition isCloseToAnyMine ::
  "(real \<Rightarrow> real \<Rightarrow> real \<Rightarrow> real \<Rightarrow> real) \<Rightarrow> real \<Rightarrow> Encounter list \<Rightarrow> Encounter \<Rightarrow> bool" where
  "isCloseToAnyMine getDistanceInMeters MATCH_RADIUS myEncounters other =
     list_ex (\<lambda>mine.
        getDistanceInMeters (lat (location mine)) (lng (location mine))
                            (lat (location other)) (lng (location other)) \<le> MATCH_RADIUS)
       myEncounters"

definition visibleEncounters ::
  "(real \<Rightarrow> real \<Rightarrow> real \<Rightarrow> real \<Rightarrow> real) \<Rightarrow> real \<Rightarrow> Encounter list \<Rightarrow> Encounter list \<Rightarrow> bool
     \<Rightarrow> Encounter list" where
  "visibleEncounters getDistanceInMeters MATCH_RADIUS myEncounters nearbyEncounters showHidden =
     (if length myEncounters = 0 then []
      else filter (\<lambda>other.
             if \<not> showHidden \<and> status other = HIDDEN then False
             else isCloseToAnyMine getDistanceInMeters MATCH_RADIUS myEncounters other)
           nearbyEncounters)"

section \<open>Application state (App.tsx, the useState cells of App)\<close>

text \<open>
  The component keeps its data in \<^verbatim>\<open>useState\<close> cells; a handler reads the cells of the
  render that created it and writes through the setters. The state record holds the cells
  the handlers below read or write. The state cell \<^verbatim>\<open>userProfile\<close> is \<open>myProfile\<close> here
  (the field \<open>userProfile\<close> is the snapshot inside an encounter), and
  \<^verbatim>\<open>showMatchOverlay\<close> is \<open>Some partner\<close> when visible.
\<close>

datatype View = ViewMain | ViewCreate | ViewDetails | ViewChat

datatype Tab = TabMap | TabExplore | TabMatches | TabProfile

datatype ExploreMode = Grouped | ListMode | Drilldown

datatype NoticeType = Success | Info | Error

record Notification =
  message :: string
  noticeType :: NoticeType

record MapFilters =
  mine :: bool
  possible :: bool
  likedMe :: bool
  match :: bool

record AppState =
  activeTab :: Tab
  currentView :: View
  mapCenter :: "Location option"
  myProfile :: UserProfile
  myEncounters :: "Encounter list"
  nearbyEncounters :: "Encounter list"
  chats :: "Chat list"
  selectedEncounter :: "Encounter option"
  activeChat :: "Chat option"
  mapZoom :: int
  newEncounterTitle :: string
  newEncounterDesc :: string
  newEncounterImage :: "string option"
  newEncounterTags :: "EncounterTag list"
  exploreMode :: ExploreMode
  showHidden :: bool
  mapFilters :: MapFilters
  isTyping :: bool
  showUnmatchDialog :: bool
  showMatchOverlay :: "UserProfile option"
  notification :: "Notification option"

text \<open>
  \<^verbatim>\<open>showNotification\<close> stores the toast; the timer that clears it three seconds later
  is a separate event, \<open>clearNotification\<close>.
\<close>

definition showNotification :: "string \<Rightarrow> NoticeType \<Rightarrow> AppState \<Rightarrow> AppState" where
  "showNotification m t s = s\<lparr>notification := Some \<lparr>message = m, noticeType = t\<rparr>\<rparr>"

definition clearNotification :: "AppState \<Rightarrow> AppState" where
  "clearNotification s = s\<lparr>notification := None\<rparr>"

text \<open>
  Texts of the source, as UTF-8 bytes where they leave ASCII. \<^verbatim>\<open>Date.now()\<close> is an input
  of each handler (\<open>now\<close>); a template literal prints it in decimal.
\<close>

function show_nat :: "nat \<Rightarrow> string" where
  "show_nat n =
     (if n < 10 then [char_of (48 + n)] else show_nat (n div 10) @ [char_of (48 + n mod 10)])"
  by pat_completeness auto
termination
  by (relation "measure (\<lambda>n. n)") auto

declare show_nat.simps [simp del]

definition limit_text :: string where
  "limit_text = ''L'' @ [CHR 0xC3, CHR 0xAD] @ ''mite de 5 encuentros alcanzado''"

definition published_text :: string where
  "published_text = ''Encuentro publicado con '' @ [CHR 0xC3, CHR 0xA9] @ ''xito''"

definition quick_published_text :: string where
  "quick_published_text =
     [CHR 0xC2, CHR 0xA1] @ ''Encuentro publicado r'' @ [CHR 0xC3, CHR 0xA1] @ ''pidamente!''"

definition default_quick_message :: string where
  "default_quick_message =
     ''Me llamaste la atenci'' @ [CHR 0xC3, CHR 0xB3] @ ''n, me pareciste linda e interesante''"

definition match_text :: string where
  "match_text = [CHR 0xC2, CHR 0xA1] @ ''Es un Match!''"

definition like_text :: string where
  "like_text = ''Le has dado '' @ [CHR 0x27] @ ''Me Gusta'' @ [CHR 0x27]"

definition canned_reply_text :: string where
  "canned_reply_text =
     [CHR 0xC2, CHR 0xA1] @ ''Jaja! Totalmente. '' @ [CHR 0xC2, CHR 0xBF] @ ''Sigues por la zona?''"

section \<open>Publishing and deleting own posts\<close>

text \<open>
  \<^verbatim>\<open>handleCreateEncounter\<close>: the guard on the map centre and the form comes first and
  returns without a word; the cap of five comes second and reports.
\<close>

definition handleCreateEncounter :: "nat \<Rightarrow> AppState \<Rightarrow> AppState" where
  "handleCreateEncounter now s =
     (case mapCenter s of
        None \<Rightarrow> s
      | Some centre \<Rightarrow>
          if newEncounterTitle s = [] \<or> newEncounterDesc s = [] then s
          else if length (myEncounters s) \<ge> 5 then showNotification limit_text Error s
          else
            let newEncounter =
                  \<lparr>encId = ''mine-'' @ show_nat now,
                   userId = profileId (myProfile s),
                   userProfile = myProfile s,
                   title = newEncounterTitle s,
                   description = newEncounterDesc s,
                   location = centre,
                   timestamp = now,
                   image = newEncounterImage s,
                   status = PENDING,
                   distance = Some 0,
                   tags = newEncounterTags s\<rparr>
            in showNotification published_text Success
                 (s\<lparr>myEncounters := newEncounter # myEncounters s,
                     newEncounterTitle := [],
                     newEncounterDesc := [],
                     newEncounterImage := None,
                     newEncounterTags := [],
                     currentView := ViewMain,
                     activeTab := TabExplore,
                     exploreMode := Grouped\<rparr>))"

text \<open>\<^verbatim>\<open>a || b\<close> on an optional string: \<^verbatim>\<open>b\<close> when \<^verbatim>\<open>a\<close> is undefined or empty.\<close>

definition or_default :: "string option \<Rightarrow> string \<Rightarrow> string" where
  "or_default a b = (case a of None \<Rightarrow> b | Some x \<Rightarrow> if x = [] then b else x)"

definition handleQuickPublish :: "nat \<Rightarrow> AppState \<Rightarrow> AppState" where
  "handleQuickPublish now s =
     (case mapCenter s of
        None \<Rightarrow> s
      | Some centre \<Rightarrow>
          if length (myEncounters s) \<ge> 5 then showNotification limit_text Error s
          else
            let newEncounter =
                  \<lparr>encId = ''mine-quick-'' @ show_nat now,
                   userId = profileId (myProfile s),
                   userProfile = myProfile s,
                   title = ''Miradas Cruzadas'',
                   description = or_default (quickMessage (myProfile s)) default_quick_message,
                   location = centre,
                   timestamp = now,
                   image = first_image (images (myProfile s)),
                   status = PENDING,
                   distance = Some 0,
                   tags = [Cruzamos_miradas]\<rparr>
            in (showNotification quick_published_text Success
                  (s\<lparr>myEncounters := newEncounter # myEncounters s\<rparr>))
                 \<lparr>activeTab := TabExplore, currentView := ViewMain\<rparr>)"

text \<open>The delete button of the profile tab, on one of the own posts.\<close>

definition deleteEncounter :: "Encounter \<Rightarrow> AppState \<Rightarrow> AppState" where
  "deleteEncounter encounter s =
     showNotification ''Encuentro eliminado'' Info
       (s\<lparr>myEncounters := filter (\<lambda>e. encId e \<noteq> encId encounter) (myEncounters s)\<rparr>)"

section \<open>Lifecycle handlers (App.tsx, handleConnect, handleReject, handleUnmatch)\<close>

text \<open>
  \<^verbatim>\<open>Array.find\<close> is \<open>find\<close>. The two lookups below read a candidate's status and a
  candidate's chat session the way the source does, by the first entry with the id.
\<close>

definition statusOf :: "string \<Rightarrow> Encounter list \<Rightarrow> EncounterStatus option" where
  "statusOf i es = map_option status (find (\<lambda>e. encId e = i) es)"

definition chatOf :: "string \<Rightarrow> Chat list \<Rightarrow> Chat option" where
  "chatOf i cs = find (\<lambda>c. encounterId c = i) cs"

text \<open>
  \<^verbatim>\<open>handleConnect\<close> is an \<^verbatim>\<open>async\<close> function. It runs up to its
  \<^verbatim>\<open>await generateInitialMessage(encounter.title)\<close> in the click that called it
  (\<open>handleConnect_begin\<close>); what follows the \<^verbatim>\<open>await\<close> runs later, when the opener
  has arrived, on the state of that moment, since \<^verbatim>\<open>setChats\<close> takes an updater
  (\<open>handleConnect_resume\<close>). \<^verbatim>\<open>generateInitialMessage\<close> asks a remote model for the
  opener and resolves to a fixed line when the call fails; the line it resolves to is the
  parameter \<open>initialMsg\<close>. \<open>handleConnect\<close> is the run in which nothing happens in
  between. The argument \<open>encounter\<close> is the snapshot the view holds.
\<close>

definition handleConnect_begin :: "Encounter \<Rightarrow> AppState \<Rightarrow> AppState" where
  "handleConnect_begin encounter s =
     (let isInstantMatch = (status encounter = LIKED_BY_THEM);
          newStatus = (if isInstantMatch then MATCHED else LIKED_BY_ME);
          updatedEncounter = encounter\<lparr>status := newStatus\<rparr>;
          s1 = s\<lparr>nearbyEncounters :=
                    map (\<lambda>e. if encId e = encId encounter then updatedEncounter else e)
                      (nearbyEncounters s),
                  selectedEncounter := Some updatedEncounter\<rparr>
      in if isInstantMatch then s1\<lparr>showMatchOverlay := Some (userProfile encounter)\<rparr>
         else showNotification like_text Success s1)"

definition handleConnect_resume :: "Encounter \<Rightarrow> string \<Rightarrow> nat \<Rightarrow> AppState \<Rightarrow> AppState" where
  "handleConnect_resume encounter initialMsg now s =
     (if status encounter = LIKED_BY_THEM then
        let newChat =
              \<lparr>encounterId = encId encounter,
               partnerName = name (userProfile encounter),
               partnerImage = first_image (images (userProfile encounter)),
               messages =
                 [\<lparr>msgId = ''sys-1'', senderId = ''system'', msgText = match_text,
                   msgTimestamp = now\<rparr>,
                  \<lparr>msgId = ''initial-1'', senderId = userId encounter, msgText = initialMsg,
                   msgTimestamp = now + 1000\<rparr>],
               unreadCount = 1\<rparr>
        in s\<lparr>chats := newChat # chats s\<rparr>
      else s)"

definition handleConnect :: "Encounter \<Rightarrow> string \<Rightarrow> nat \<Rightarrow> AppState \<Rightarrow> AppState" where
  "handleConnect encounter initialMsg now s =
     handleConnect_resume encounter initialMsg now (handleConnect_begin encounter s)"

definition handleReject :: "AppState \<Rightarrow> AppState" where
  "handleReject s =
     (case selectedEncounter s of
        None \<Rightarrow> s
      | Some sel \<Rightarrow>
          let updated = sel\<lparr>status := HIDDEN\<rparr>
          in showNotification ''Encuentro ocultado'' Info
               (s\<lparr>nearbyEncounters :=
                     map (\<lambda>e. if encId e = encId sel then updated else e) (nearbyEncounters s),
                   selectedEncounter := None,
                   currentView := ViewMain\<rparr>))"

definition handleUnmatch :: "AppState \<Rightarrow> AppState" where
  "handleUnmatch s =
     (case selectedEncounter s of
        None \<Rightarrow> s
      | Some sel \<Rightarrow>
          showNotification ''Match cancelado'' Info
            (s\<lparr>nearbyEncounters :=
                  map (\<lambda>e. if encId e = encId sel then e\<lparr>status := PENDING\<rparr> else e)
                    (nearbyEncounters s),
                chats := filter (\<lambda>c. encounterId c \<noteq> encId sel) (chats s),
                showUnmatchDialog := False,
                selectedEncounter := None,
                currentView := ViewMain,
                activeChat := None\<rparr>))"

text \<open>
  The buttons of the details view, by the status of the selected encounter: the cross that
  opens the unmatch dialog and the chat button on a match, nothing on a like already
  sent, the reject and connect buttons otherwise.
\<close>

datatype DetailAction = OfferUnmatch | OfferChat | OfferReject | OfferConnect

definition detailsActions :: "EncounterStatus \<Rightarrow> DetailAction list" where
  "detailsActions st =
     (let isMatched = (st = MATCHED); isLiked = (st = LIKED_BY_ME)
      in if isMatched then [OfferUnmatch, OfferChat]
         else if isLiked then []
         else [OfferReject, OfferConnect])"

text \<open>The cross of the details view opens the unmatch dialog; its button is Unmatch.\<close>

definition openUnmatchDialog :: "AppState \<Rightarrow> AppState" where
  "openUnmatchDialog s = s\<lparr>showUnmatchDialog := True\<rparr>"

section \<open>Chat handlers (App.tsx, openChat, sendMessage)\<close>

definition openChat :: "string \<Rightarrow> nat \<Rightarrow> AppState \<Rightarrow> AppState" where
  "openChat i now s =
     (let found = find (\<lambda>c. encounterId c = i) (chats s);
          created =
            (case found of
               Some c \<Rightarrow> None
             | None \<Rightarrow>
                 (case find (\<lambda>e. encId e = i) (nearbyEncounters s) of
                    None \<Rightarrow> None
                  | Some enc \<Rightarrow>
                      Some \<lparr>encounterId = encId enc,
                            partnerName = name (userProfile enc),
                            partnerImage = first_image (images (userProfile enc)),
                            messages =
                              [\<lparr>msgId = ''sys-recovery'', senderId = ''system'',
                                msgText = match_text, msgTimestamp = now\<rparr>],
                            unreadCount = 0\<rparr>));
          s1 = (case created of None \<Rightarrow> s | Some newChat \<Rightarrow> s\<lparr>chats := chats s @ [newChat]\<rparr>);
          chat = (case found of Some c \<Rightarrow> Some c | None \<Rightarrow> created)
      in case chat of
           None \<Rightarrow> s1
         | Some c \<Rightarrow>
             let updatedChat = c\<lparr>unreadCount := 0\<rparr>
             in s1\<lparr>chats := map (\<lambda>c. if encounterId c = i then updatedChat else c) (chats s1),
                   activeChat := Some updatedChat,
                   currentView := ViewChat,
                   showMatchOverlay := None\<rparr>)"

text \<open>A row of the matches tab, clicked; the arrow that leaves a view; the partner's
  picture in the chat header.\<close>

definition openChatFromList :: "Chat \<Rightarrow> AppState \<Rightarrow> AppState" where
  "openChatFromList chat s =
     (let updatedChat = chat\<lparr>unreadCount := 0\<rparr>
      in s\<lparr>chats := map (\<lambda>c. if encounterId c = encounterId chat then updatedChat else c)
                       (chats s),
            activeChat := Some updatedChat,
            currentView := ViewChat\<rparr>)"

definition backToMain :: "AppState \<Rightarrow> AppState" where
  "backToMain s = s\<lparr>currentView := ViewMain\<rparr>"

definition handleViewProfile :: "string \<Rightarrow> AppState \<Rightarrow> AppState" where
  "handleViewProfile i s =
     (case find (\<lambda>e. encId e = i) (nearbyEncounters s) of
        None \<Rightarrow> s
      | Some enc \<Rightarrow> s\<lparr>selectedEncounter := Some enc, currentView := ViewDetails\<rparr>)"

text \<open>
  \<^verbatim>\<open>sendMessage\<close> writes the user's message at once and arms a timer of 2.5 seconds.
  The timer's callback is a closure: \<^verbatim>\<open>activeChat\<close>, \<^verbatim>\<open>currentView\<close> and
  \<^verbatim>\<open>updatedChat\<close> in it are the values of the render in which the message was sent,
  whatever the state is when it fires; only the updaters passed to \<^verbatim>\<open>setActiveChat\<close>
  and \<^verbatim>\<open>setChats\<close> see the state of that later moment (their \<^verbatim>\<open>prev\<close>).
  \<open>PendingReply\<close> is that closure, \<open>replyTimeout\<close> is the callback.
\<close>

record PendingReply =
  capturedActiveChat :: Chat
  capturedView :: View
  capturedUpdatedChat :: Chat

definition sendMessage :: "string \<Rightarrow> nat \<Rightarrow> AppState \<Rightarrow> AppState \<times> PendingReply option" where
  "sendMessage txt now s =
     (case activeChat s of
        None \<Rightarrow> (s, None)
      | Some ac \<Rightarrow>
          let msg = \<lparr>msgId = ''msg-'' @ show_nat now, senderId = profileId (myProfile s),
                     msgText = txt, msgTimestamp = now\<rparr>;
              updatedChat = ac\<lparr>messages := messages ac @ [msg]\<rparr>
          in (s\<lparr>activeChat := Some updatedChat,
                 chats := map (\<lambda>c. if encounterId c = encounterId ac then updatedChat else c)
                            (chats s),
                 isTyping := True\<rparr>,
              Some \<lparr>capturedActiveChat = ac, capturedView = currentView s,
                    capturedUpdatedChat = updatedChat\<rparr>))"

definition replyTimeout :: "PendingReply \<Rightarrow> nat \<Rightarrow> AppState \<Rightarrow> AppState" where
  "replyTimeout p now s =
     (let ac = capturedActiveChat p;
          reply = \<lparr>msgId = ''reply-'' @ show_nat now, senderId = ''partner'',
                   msgText = canned_reply_text, msgTimestamp = now\<rparr>;
          replyChat = (capturedUpdatedChat p)
                        \<lparr>messages := messages (capturedUpdatedChat p) @ [reply]\<rparr>;
          s1 = s\<lparr>isTyping := False,
                 activeChat :=
                   (case activeChat s of
                      None \<Rightarrow> None
                    | Some prev \<Rightarrow>
                        if encounterId prev = encounterId ac then Some replyChat else Some prev),
                 chats :=
                   map (\<lambda>c. if encounterId c = encounterId ac then
                               (if capturedView p = ViewChat \<and> encounterId ac = encounterId c
                                then replyChat
                                else replyChat\<lparr>unreadCount := unreadCount c + 1\<rparr>)
                             else c)
                     (chats s)\<rparr>
      in if capturedView p \<noteq> ViewChat
         then showNotification (''Nuevo mensaje de '' @ partnerName ac) Success s1
         else s1)"

section \<open>Marker clustering (App.tsx, clusteredMarkers)\<close>

text \<open>
  A JavaScript \<^verbatim>\<open>number\<close> is an IEEE 754 double: a finite value of the set
  \<open>double\<close>, an infinity or \<^verbatim>\<open>NaN\<close>. The two zeros are one number here: they compare
  equal, and the operations below tell them apart only in the sign of a zero or of an
  infinity that a negative exponent produces, and the clustering raises to no negative
  power. The coordinates of a post are finite doubles.
\<close>

datatype jsnum = Num real | PosInf | NegInf | NaN

definition double :: "real set" where
  "double = {x. \<exists>m e. x = of_int m * 2 powi e \<and> \<bar>m\<bar> < 2 ^ 53 \<and> - 1074 \<le> e \<and> e \<le> 971}"

text \<open>
  Rounding to the nearest double. A double is its own rounding; a real at or beyond
  \<open>2 ^ 1024 - 2 ^ 970\<close> in magnitude rounds to an infinity; any other real rounds to a
  double nearest to it. Of two doubles equally near the source takes the one with the
  even significand; \<open>nearest\<close> is one of the two, and nothing below depends on which.
\<close>

definition nearest :: "real \<Rightarrow> real" where
  "nearest x = arg_min_on (\<lambda>d. \<bar>x - d\<bar>) double"

definition fl :: "real \<Rightarrow> jsnum" where
  "fl x =
     (if x \<in> double then Num x
      else if 2 ^ 1024 - 2 ^ 970 \<le> \<bar>x\<bar> then (if 0 < x then PosInf else NegInf)
      else Num (nearest x))"

text \<open>The operators \<^verbatim>\<open>+\<close>, \<^verbatim>\<open>-\<close> and \<^verbatim>\<open>/\<close> (here by the length of an array).\<close>

fun js_add :: "jsnum \<Rightarrow> jsnum \<Rightarrow> jsnum" where
  "js_add (Num a) (Num b) = fl (a + b)"
| "js_add NaN y = NaN"
| "js_add x NaN = NaN"
| "js_add PosInf NegInf = NaN"
| "js_add NegInf PosInf = NaN"
| "js_add PosInf y = PosInf"
| "js_add NegInf y = NegInf"
| "js_add (Num a) PosInf = PosInf"
| "js_add (Num a) NegInf = NegInf"

fun js_neg :: "jsnum \<Rightarrow> jsnum" where
  "js_neg (Num a) = Num (- a)"
| "js_neg PosInf = NegInf"
| "js_neg NegInf = PosInf"
| "js_neg NaN = NaN"

definition js_sub :: "jsnum \<Rightarrow> jsnum \<Rightarrow> jsnum" where
  "js_sub x y = js_add x (js_neg y)"

fun js_div :: "jsnum \<Rightarrow> nat \<Rightarrow> jsnum" where
  "js_div (Num a) n =
     (if n = 0 then (if 0 < a then PosInf else if a < 0 then NegInf else NaN)
      else fl (a / real n))"
| "js_div PosInf n = PosInf"
| "js_div NegInf n = NegInf"
| "js_div NaN n = NaN"

text \<open>
  \<^verbatim>\<open>Math.pow\<close>, by the cases of the language standard. Where none of the special cases
  applies the standard asks for an approximation of the power and no more; \<open>pow_approx\<close>
  is such an approximation, of which only this is taken for granted: it is never
  \<^verbatim>\<open>NaN\<close>, and where the power lies in the range of the normal doubles it is finite and
  off by at most half of the power.
\<close>

definition integral :: "real \<Rightarrow> bool" where
  "integral y = (y = of_int \<lfloor>y\<rfloor>)"

definition odd_integral :: "real \<Rightarrow> bool" where
  "odd_integral y = (integral y \<and> odd \<lfloor>y\<rfloor>)"

definition exact_pow :: "real \<Rightarrow> real \<Rightarrow> real" where
  "exact_pow x y = (if 0 < x then x powr y else x powi \<lfloor>y\<rfloor>)"

definition pow_spec :: "(real \<Rightarrow> real \<Rightarrow> jsnum) \<Rightarrow> bool" where
  "pow_spec f =
     (\<forall>x y. f x y \<noteq> NaN \<and>
        (1 / 2 ^ 1022 \<le> \<bar>exact_pow x y\<bar> \<and> \<bar>exact_pow x y\<bar> \<le> (2 ^ 53 - 1) * 2 ^ 971 \<longrightarrow>
           (\<exists>d. f x y = Num d \<and> \<bar>d - exact_pow x y\<bar> \<le> \<bar>exact_pow x y\<bar> / 2)))"

definition pow_approx :: "real \<Rightarrow> real \<Rightarrow> jsnum" where
  "pow_approx = (SOME f. pow_spec f)"

definition Math_pow :: "jsnum \<Rightarrow> jsnum \<Rightarrow> jsnum" where
  "Math_pow base exponent =
     (case exponent of
        NaN \<Rightarrow> NaN
      | Num y \<Rightarrow>
          if y = 0 then Num 1
          else
            (case base of
               NaN \<Rightarrow> NaN
             | PosInf \<Rightarrow> if 0 < y then PosInf else Num 0
             | NegInf \<Rightarrow>
                 if 0 < y then (if odd_integral y then NegInf else PosInf) else Num 0
             | Num x \<Rightarrow>
                 if x = 0 then (if 0 < y then Num 0 else PosInf)
                 else if x < 0 \<and> \<not> integral y then NaN
                 else pow_approx x y)
      | PosInf \<Rightarrow>
          (case base of
             NaN \<Rightarrow> NaN
           | PosInf \<Rightarrow> PosInf
           | NegInf \<Rightarrow> PosInf
           | Num x \<Rightarrow>
               if x = 0 then Num 0
               else if 1 < \<bar>x\<bar> then PosInf
               else if \<bar>x\<bar> = 1 then NaN
               else Num 0)
      | NegInf \<Rightarrow>
          (case base of
             NaN \<Rightarrow> NaN
           | PosInf \<Rightarrow> Num 0
           | NegInf \<Rightarrow> Num 0
           | Num x \<Rightarrow>
               if x = 0 then PosInf
               else if 1 < \<bar>x\<bar> then Num 0
               else if \<bar>x\<bar> = 1 then NaN
               else PosInf))"

text \<open>\<^verbatim>\<open>Math.sqrt\<close>: the square root, rounded.\<close>

fun Math_sqrt :: "jsnum \<Rightarrow> jsnum" where
  "Math_sqrt (Num x) = (if x < 0 then NaN else fl (sqrt x))"
| "Math_sqrt PosInf = PosInf"
| "Math_sqrt NegInf = NaN"
| "Math_sqrt NaN = NaN"

text \<open>
  The distance of the source, as it is written: the latitude difference raised to the
  power of the squared longitude difference, and the square root of that.
\<close>

definition clusterDist :: "Location \<Rightarrow> Location \<Rightarrow> jsnum" where
  "clusterDist a b =
     Math_sqrt
       (Math_pow (js_sub (Num (lat a)) (Num (lat b)))
          (Math_pow (js_sub (Num (lng a)) (Num (lng b))) (Num 2)))"

text \<open>The test \<^verbatim>\<open>dist < threshold\<close>, false on \<^verbatim>\<open>NaN\<close>.\<close>

fun below :: "jsnum \<Rightarrow> real \<Rightarrow> bool" where
  "below (Num x) threshold = (x < threshold)"
| "below NegInf threshold = True"
| "below PosInf threshold = False"
| "below NaN threshold = False"

record Cluster =
  clusterId :: string
  clusterLat :: jsnum
  clusterLng :: jsnum
  clusterCount :: nat

record Markers =
  clusters :: "Cluster list"
  singles :: "Encounter list"

text \<open>The inner \<^verbatim>\<open>forEach\<close>: the group of \<open>current\<close> and the set of processed ids.\<close>

fun joinGroup ::
  "Encounter \<Rightarrow> real \<Rightarrow> Encounter list \<Rightarrow> Encounter list \<times> string set
     \<Rightarrow> Encounter list \<times> string set" where
  "joinGroup current threshold [] (clusterGroup, processedIds) = (clusterGroup, processedIds)"
| "joinGroup current threshold (other # rest) (clusterGroup, processedIds) =
     (if encId other \<notin> processedIds
      then
        if below (clusterDist (location current) (location other)) threshold
        then joinGroup current threshold rest
               (clusterGroup @ [other], insert (encId other) processedIds)
        else joinGroup current threshold rest (clusterGroup, processedIds)
      else joinGroup current threshold rest (clusterGroup, processedIds))"

text \<open>The outer \<^verbatim>\<open>forEach\<close> over the same array, \<open>markersToShow\<close>.\<close>

fun clusterLoop ::
  "real \<Rightarrow> Encounter list \<Rightarrow> Encounter list \<Rightarrow> Markers \<times> string set \<Rightarrow> Markers" where
  "clusterLoop threshold markersToShow [] (acc, processedIds) = acc"
| "clusterLoop threshold markersToShow (current # rest) (acc, processedIds) =
     (if encId current \<in> processedIds
      then clusterLoop threshold markersToShow rest (acc, processedIds)
      else
        let (clusterGroup, processed) =
              joinGroup current threshold markersToShow
                ([current], insert (encId current) processedIds)
        in if length clusterGroup > 1
           then
             let avgLat = js_div (foldl (\<lambda>sum item. js_add sum (Num (lat (location item))))
                                    (Num 0) clusterGroup)
                            (length clusterGroup);
                 avgLng = js_div (foldl (\<lambda>sum item. js_add sum (Num (lng (location item))))
                                    (Num 0) clusterGroup)
                            (length clusterGroup)
             in clusterLoop threshold markersToShow rest
                  (acc\<lparr>clusters := clusters acc @
                          [\<lparr>clusterId = ''cluster-'' @ encId current, clusterLat = avgLat,
                            clusterLng = avgLng, clusterCount = length clusterGroup\<rparr>]\<rparr>,
                   processed)
           else clusterLoop threshold markersToShow rest
                  (acc\<lparr>singles := singles acc @ [current]\<rparr>, processed))"

text \<open>The threshold by zoom level; a decimal literal is the double nearest to it.\<close>

definition zoomThreshold :: "int \<Rightarrow> real" where
  "zoomThreshold z =
     (if z < 14 then nearest 0.005 else if z < 16 then nearest 0.001 else nearest 0.0002)"

definition markersToShow ::
  "(real \<Rightarrow> real \<Rightarrow> real \<Rightarrow> real \<Rightarrow> real) \<Rightarrow> real \<Rightarrow> AppState \<Rightarrow> Encounter list" where
  "markersToShow getDistanceInMeters MATCH_RADIUS s =
     (if mine (mapFilters s) then myEncounters s else []) @
     filter (\<lambda>e.
        if status e = MATCHED then match (mapFilters s)
        else if status e = LIKED_BY_THEM then likedMe (mapFilters s)
        else if status e = HIDDEN then showHidden s
        else possible (mapFilters s))
       (visibleEncounters getDistanceInMeters MATCH_RADIUS (myEncounters s)
          (nearbyEncounters s) (showHidden s))"

definition clusteredMarkers ::
  "(real \<Rightarrow> real \<Rightarrow> real \<Rightarrow> real \<Rightarrow> real) \<Rightarrow> real \<Rightarrow> AppState \<Rightarrow> Markers" where
  "clusteredMarkers getDistanceInMeters MATCH_RADIUS s =
     (let ms = markersToShow getDistanceInMeters MATCH_RADIUS s
      in if length ms = 0 then \<lparr>clusters = [], singles = []\<rparr>
         else clusterLoop (zoomThreshold (mapZoom s)) ms ms
                (\<lparr>clusters = [], singles = []\<rparr>, {}))"

section \<open>Sample data\<close>

definition sample_profile :: "string \<Rightarrow> UserProfile" where
  "sample_profile n =
     \<lparr>profileId = n, name = n, age = None, gender = None, bio = [], quickMessage = None,
      images = [], coverImage = None, isCurrentUser = False\<rparr>"

definition sample_post :: "string \<Rightarrow> real \<Rightarrow> real \<Rightarrow> EncounterStatus \<Rightarrow> Encounter" where
  "sample_post i la lo st =
     \<lparr>encId = i, userId = i, userProfile = sample_profile i, title = [], description = [],
      location = \<lparr>lat = la, lng = lo\<rparr>, timestamp = 0, image = None, status = st,
      distance = None, tags = []\<rparr>"

definition sample_state :: AppState where
  "sample_state =
     \<lparr>activeTab = TabMap, currentView = ViewMain, mapCenter = Some \<lparr>lat = 0, lng = 0\<rparr>,
      myProfile = sample_profile ''me'', myEncounters = [], nearbyEncounters = [],
      chats = [], selectedEncounter = None, activeChat = None, mapZoom = 16,
      newEncounterTitle = [], newEncounterDesc = [], newEncounterImage = None,
      newEncounterTags = [], exploreMode = Grouped, showHidden = False,
      mapFilters = \<lparr>mine = True, possible = True, likedMe = True, match = True\<rparr>,
      isTyping = False, showUnmatchDialog = False, showMatchOverlay = None,
      notification = None\<rparr>"

definition sample_chat :: "string \<Rightarrow> Chat" where
  "sample_chat i =
     \<lparr>encounterId = i, partnerName = i, partnerImage = None,
      messages = [\<lparr>msgId = ''sys-1'', senderId = ''system'', msgText = match_text,
                   msgTimestamp = 0\<rparr>],
      unreadCount = 0\<rparr>"

definition full_state :: AppState where
  "full_state =
     sample_state\<lparr>myEncounters := map (\<lambda>i. sample_post i 0 0 PENDING)
                                      [''m1'', ''m2'', ''m3'', ''m4'', ''m5''],
                   newEncounterTitle := ''t'', newEncounterDesc := ''d''\<rparr>"

definition sample_with ::
  "Encounter list \<Rightarrow> Chat list \<Rightarrow> Encounter option \<Rightarrow> Chat option \<Rightarrow> View \<Rightarrow> AppState" where
  "sample_with es cs sel ac v =
     sample_state\<lparr>nearbyEncounters := es, chats := cs, selectedEncounter := sel,
                   activeChat := ac, currentView := v\<rparr>"

text \<open>A chat that is open, the message sent from it, and the reply armed by sending.\<close>

definition chat_open_state :: AppState where
  "chat_open_state =
     sample_with [sample_post ''c'' 0 0 MATCHED] [sample_chat ''c''] None
       (Some (sample_chat ''c'')) ViewChat"

definition sent_state :: AppState where
  "sent_state = fst (sendMessage ''hola'' 1 chat_open_state)"

definition sample_pending :: PendingReply where
  "sample_pending =
     \<lparr>capturedActiveChat = sample_chat ''c'', capturedView = ViewChat,
      capturedUpdatedChat =
        (sample_chat ''c'')
          \<lparr>messages := messages (sample_chat ''c'') @
             [\<lparr>msgId = ''msg-'' @ show_nat 1, senderId = ''me'', msgText = ''hola'',
               msgTimestamp = 1\<rparr>]\<rparr>\<rparr>"

text \<open>
  A run in which Unmatch overtakes the opener: Connect on a candidate who liked first, the
  chat button while the opener is awaited, a message, the partner's name in the chat
  header, the cross, Unmatch. \<open>recovery_pending\<close> is the reply armed on the way.
\<close>

definition liked_post :: Encounter where
  "liked_post = sample_post ''c'' 0 0 LIKED_BY_THEM"

definition liked_state :: AppState where
  "liked_state = sample_with [liked_post] [] (Some liked_post) None ViewDetails"

definition recovery_chat :: Chat where
  "recovery_chat =
     \<lparr>encounterId = ''c'', partnerName = ''c'', partnerImage = None,
      messages = [\<lparr>msgId = ''sys-recovery'', senderId = ''system'', msgText = match_text,
                   msgTimestamp = 1\<rparr>],
      unreadCount = 0\<rparr>"

definition recovery_pending :: PendingReply where
  "recovery_pending =
     \<lparr>capturedActiveChat = recovery_chat, capturedView = ViewChat,
      capturedUpdatedChat =
        recovery_chat
          \<lparr>messages := messages recovery_chat @
             [\<lparr>msgId = ''msg-'' @ show_nat 2, senderId = ''me'', msgText = ''hola'',
               msgTimestamp = 2\<rparr>]\<rparr>\<rparr>"

definition message_sent :: "AppState \<times> PendingReply option" where
  "message_sent =
     sendMessage ''hola'' 2 (openChat ''c'' 1 (handleConnect_begin liked_post liked_state))"

definition unmatched_in_flight :: AppState where
  "unmatched_in_flight =
     handleUnmatch (openUnmatchDialog (handleViewProfile ''c'' (fst message_sent)))"

text \<open>The invariant of the chat sessions: no two of them carry the same encounter id.\<close>

definition oneSessionPerPost :: "AppState \<Rightarrow> bool" where
  "oneSessionPerPost s = distinct (map encounterId (chats s))"

text \<open>A stand-in for the distance helper on sample data: the taxicab distance.\<close>

definition taxicab :: "real \<Rightarrow> real \<Rightarrow> real \<Rightarrow> real \<Rightarrow> real" where
  "taxicab a b c d = \<bar>a - c\<bar> + \<bar>b - d\<bar>"

section \<open>Lookups after an update\<close>

lemma find_replace:
  assumes "\<exists>x \<in> set es. encId x = i" and "\<And>x. encId x = i \<Longrightarrow> encId (f x) = i"
  shows "\<exists>x \<in> set es. encId x = i \<and>
           find (\<lambda>x. encId x = i) (map (\<lambda>x. if encId x = i then f x else x) es) = Some (f x)"
  using assms by (induction es) auto

lemma statusOf_replace:
  assumes "\<exists>x \<in> set es. encId x = i"
      and "\<And>x. encId x = i \<Longrightarrow> encId (f x) = i \<and> status (f x) = st"
  shows "statusOf i (map (\<lambda>x. if encId x = i then f x else x) es) = Some st"
proof -
  from find_replace [of es i f] assms obtain x where
    "encId x = i"
    "find (\<lambda>x. encId x = i) (map (\<lambda>x. if encId x = i then f x else x) es) = Some (f x)"
    by blast
  with assms(2) show ?thesis by (simp add: statusOf_def)
qed

lemma statusOf_Some_ex: "statusOf i es = Some st \<Longrightarrow> \<exists>x \<in> set es. encId x = i"
  by (induction es) (auto simp: statusOf_def split: if_splits)

lemma chatOf_filter_out: "chatOf i (filter (\<lambda>c. encounterId c \<noteq> i) cs) = None"
  by (induction cs) (auto simp: chatOf_def)

lemma chatOf_None_iff: "chatOf i cs = None \<longleftrightarrow> (\<forall>c \<in> set cs. encounterId c \<noteq> i)"
  by (induction cs) (auto simp: chatOf_def)

lemma map_replace_absent:
  "\<forall>c \<in> set cs. encounterId c \<noteq> i \<Longrightarrow> map (\<lambda>c. if encounterId c = i then f c else c) cs = cs"
  by (induction cs) auto

lemma map_replace_ids:
  "(\<And>c. encounterId c = i \<Longrightarrow> encounterId (f c) = i) \<Longrightarrow>
     map encounterId (map (\<lambda>c. if encounterId c = i then f c else c) cs) = map encounterId cs"
  by (induction cs) auto

lemma map_replace_ids_comp:
  "(\<And>c. encounterId c = i \<Longrightarrow> encounterId (f c) = i) \<Longrightarrow>
     map (encounterId \<circ> (\<lambda>c. if encounterId c = i then f c else c)) cs = map encounterId cs"
  by (induction cs) auto

lemma find_enc_id: "find (\<lambda>e. encId e = i) es = Some e \<Longrightarrow> encId e = i"
  by (induction es) (auto split: if_splits)

lemma find_chat_id: "find (\<lambda>c. encounterId c = i) cs = Some c \<Longrightarrow> encounterId c = i"
  by (induction cs) (auto split: if_splits)

lemma sendMessage_captures:
  assumes "sendMessage txt t0 s0 = (s1, Some p)"
  shows "encounterId (capturedUpdatedChat p) = encounterId (capturedActiveChat p)"
  using assms by (auto simp: sendMessage_def Let_def split: option.splits)

lemma sendMessage_sample:
  "sendMessage ''hola'' 1 chat_open_state = (sent_state, Some sample_pending)"
  by (simp add: sent_state_def sendMessage_def chat_open_state_def sample_with_def
        sample_state_def sample_pending_def sample_profile_def Let_def)

section \<open>Doubles\<close>

lemma int_in_double: "\<bar>m\<bar> < 2 ^ 53 \<Longrightarrow> of_int m \<in> double"
proof -
  assume "\<bar>m\<bar> < 2 ^ 53"
  then have "of_int m = of_int m * 2 powi 0 \<and> \<bar>m\<bar> < 2 ^ 53 \<and> - 1074 \<le> (0::int) \<and> (0::int) \<le> 971"
    by simp
  then show ?thesis unfolding double_def by blast
qed

lemma pow2_in_double: "- 1074 \<le> e \<Longrightarrow> e \<le> 971 \<Longrightarrow> 2 powi e \<in> double"
proof -
  assume "- 1074 \<le> e" "e \<le> 971"
  then have "2 powi e = of_int 1 * 2 powi e \<and> \<bar>1::int\<bar> < 2 ^ 53 \<and> - 1074 \<le> e \<and> e \<le> 971"
    by simp
  then show ?thesis unfolding double_def by blast
qed

lemma finite_double: "finite double"
proof -
  have "double \<subseteq> (\<lambda>(m, e). of_int m * 2 powi e) ` ({- (2 ^ 53) .. 2 ^ 53} \<times> {- 1074 .. 971})"
  proof
    fix x assume "x \<in> double"
    then obtain m e where x: "x = of_int m * 2 powi e" "\<bar>m\<bar> < 2 ^ 53" "- 1074 \<le> e" "e \<le> 971"
      unfolding double_def by blast
    then have "(m, e) \<in> {- (2 ^ 53) .. 2 ^ 53} \<times> {- 1074 .. 971}" by auto
    with x(1) show "x \<in> (\<lambda>(m, e). of_int m * 2 powi e) ` ({- (2 ^ 53) .. 2 ^ 53} \<times> {- 1074 .. 971})"
      by (intro image_eqI [where x = "(m, e)"]) auto
  qed
  moreover have "finite ((\<lambda>(m::int, e::int). (of_int m * 2 powi e :: real))
                   ` ({- (2 ^ 53) .. 2 ^ 53} \<times> {- 1074 .. 971}))"
    by (intro finite_imageI finite_cartesian_product) simp_all
  ultimately show ?thesis by (rule finite_subset)
qed

lemma zero_in_double: "0 \<in> double"
  using int_in_double [of 0] by simp

lemma nearest_in_double: "nearest x \<in> double"
  unfolding nearest_def using finite_double zero_in_double
  by (intro arg_min_if_finite(1)) auto

lemma nearest_le: "d \<in> double \<Longrightarrow> \<bar>x - nearest x\<bar> \<le> \<bar>x - d\<bar>"
  unfolding nearest_def using finite_double arg_min_least [of double d "\<lambda>d. \<bar>x - d\<bar>"]
  by auto

lemma fl_double: "x \<in> double \<Longrightarrow> fl x = Num x"
  by (simp add: fl_def)

lemma fl_small_ints:
  "fl 0 = Num 0" "fl 1 = Num 1" "fl 50 = Num 50" "fl 100 = Num 100" "fl (- 100) = Num (- 100)"
  using int_in_double [of 0] int_in_double [of 1] int_in_double [of 50] int_in_double [of 100]
    int_in_double [of "- 100"]
  by (simp_all add: fl_double)

lemma nearest_bounds:
  assumes "0 < x" and "2 powi e \<le> x" and "- 1074 \<le> e" and "e \<le> 971"
  shows "0 < nearest x" and "nearest x \<le> 2 * x"
proof -
  have "\<bar>x - nearest x\<bar> \<le> \<bar>x - 0\<bar>" using zero_in_double by (rule nearest_le)
  with assms(1) show "nearest x \<le> 2 * x" by simp
  show "0 < nearest x"
  proof (cases "nearest x = 2 powi e")
    case True then show ?thesis by simp
  next
    case False
    have "\<bar>x - nearest x\<bar> \<le> \<bar>x - 2 powi e\<bar>"
      using pow2_in_double [OF assms(3,4)] by (rule nearest_le)
    moreover have "0 < (2::real) powi e" by simp
    ultimately show ?thesis using assms(2) by linarith
  qed
qed

lemma zoomThreshold_bounds: "0 < zoomThreshold z \<and> zoomThreshold z \<le> 1"
proof -
  have a: "0 < nearest 0.005 \<and> nearest 0.005 \<le> 1"
    using nearest_bounds [of "0.005" "- 8"] by (simp add: power_int_minus)
  have b: "0 < nearest 0.001 \<and> nearest 0.001 \<le> 1"
    using nearest_bounds [of "0.001" "- 10"] by (simp add: power_int_minus)
  have c: "0 < nearest 0.0002 \<and> nearest 0.0002 \<le> 1"
    using nearest_bounds [of "0.0002" "- 13"] by (simp add: power_int_minus)
  from a b c show ?thesis by (simp add: zoomThreshold_def)
qed

lemma pow_spec_pow_approx: "pow_spec pow_approx"
proof -
  have "pow_spec (\<lambda>x y. Num (exact_pow x y))"
    by (simp add: pow_spec_def)
  then show ?thesis unfolding pow_approx_def by (rule someI [where P = pow_spec])
qed

lemma pow_approx_square_100: "\<exists>d. pow_approx (- 100) 2 = Num d \<and> 0 < d"
proof -
  have v: "exact_pow (- 100) 2 = 10000"
    by (simp add: exact_pow_def)
  have lo: "1 / 2 ^ 1022 \<le> \<bar>10000::real\<bar>"
  proof -
    have "1 / 2 ^ 1022 \<le> (1::real)" by (simp add: divide_le_eq)
    then show ?thesis by simp
  qed
  have hi: "\<bar>10000::real\<bar> \<le> (2 ^ 53 - 1) * 2 ^ 971"
  proof -
    have "(10000::real) \<le> 2 ^ 14" by simp
    also have "\<dots> \<le> 2 ^ 971" by (rule power_increasing) simp_all
    also have "\<dots> \<le> (2 ^ 53 - 1) * 2 ^ 971" by simp
    finally show ?thesis by simp
  qed
  from pow_spec_pow_approx lo hi v
  obtain d where "pow_approx (- 100) 2 = Num d" "\<bar>d - 10000\<bar> \<le> \<bar>10000::real\<bar> / 2"
    unfolding pow_spec_def by metis
  then show ?thesis by auto
qed


section \<open>Properties of the visibility filter\<close>

text \<open>
  C1. With no own post nothing is visible. Otherwise a candidate of the catalog is visible
  exactly when the show-hidden flag is set or its status is not \<open>HIDDEN\<close>, and some own
  post lies within the match radius of it, the radius itself included.
\<close>

theorem visibleEncounters_iff:
  "(own = [] \<longrightarrow> visibleEncounters gd R own cands sh = []) \<and>
   (own \<noteq> [] \<longrightarrow>
      (c \<in> set (visibleEncounters gd R own cands sh) \<longleftrightarrow>
         c \<in> set cands \<and> (sh \<or> status c \<noteq> HIDDEN) \<and>
         (\<exists>m \<in> set own.
            gd (lat (location m)) (lng (location m)) (lat (location c)) (lng (location c)) \<le> R)))"
  by (auto simp: visibleEncounters_def isCloseToAnyMine_def list_ex_iff)

theorem visibleEncounters_iff_witness:
  "[sample_post ''m'' 0 0 PENDING] \<noteq> [] \<and>
   sample_post ''a'' 0 150 PENDING
     \<in> set (visibleEncounters taxicab 150 [sample_post ''m'' 0 0 PENDING]
              [sample_post ''a'' 0 150 PENDING, sample_post ''b'' 0 151 PENDING,
               sample_post ''h'' 0 1 HIDDEN] False) \<and>
   sample_post ''b'' 0 151 PENDING
     \<notin> set (visibleEncounters taxicab 150 [sample_post ''m'' 0 0 PENDING]
              [sample_post ''a'' 0 150 PENDING, sample_post ''b'' 0 151 PENDING,
               sample_post ''h'' 0 1 HIDDEN] False) \<and>
   sample_post ''h'' 0 1 HIDDEN
     \<notin> set (visibleEncounters taxicab 150 [sample_post ''m'' 0 0 PENDING]
              [sample_post ''a'' 0 150 PENDING, sample_post ''b'' 0 151 PENDING,
               sample_post ''h'' 0 1 HIDDEN] False)"
  using visibleEncounters_iff [of "[sample_post ''m'' 0 0 PENDING]" taxicab 150
          "[sample_post ''a'' 0 150 PENDING, sample_post ''b'' 0 151 PENDING,
            sample_post ''h'' 0 1 HIDDEN]" False "sample_post ''a'' 0 150 PENDING"]
        visibleEncounters_iff [of "[sample_post ''m'' 0 0 PENDING]" taxicab 150
          "[sample_post ''a'' 0 150 PENDING, sample_post ''b'' 0 151 PENDING,
            sample_post ''h'' 0 1 HIDDEN]" False "sample_post ''b'' 0 151 PENDING"]
        visibleEncounters_iff [of "[sample_post ''m'' 0 0 PENDING]" taxicab 150
          "[sample_post ''a'' 0 150 PENDING, sample_post ''b'' 0 151 PENDING,
            sample_post ''h'' 0 1 HIDDEN]" False "sample_post ''h'' 0 1 HIDDEN"]
  by (simp add: sample_post_def sample_profile_def taxicab_def)

section \<open>Properties of publishing and deleting\<close>

text \<open>
  C9. With five own posts already there, neither the detailed nor the quick publish adds
  one: the own posts stay as they are, and a publish request that passes the guard before
  the cap (a map centre; for the detailed form a title and a description, without which
  its button is disabled) ends in the error toast of the limit and changes nothing else.
\<close>

theorem publish_at_capacity:
  "5 \<le> length (myEncounters s) \<Longrightarrow>
     myEncounters (handleCreateEncounter now s) = myEncounters s \<and>
     myEncounters (handleQuickPublish now s) = myEncounters s \<and>
     (mapCenter s \<noteq> None \<and> newEncounterTitle s \<noteq> [] \<and> newEncounterDesc s \<noteq> [] \<longrightarrow>
        handleCreateEncounter now s
          = s\<lparr>notification := Some \<lparr>message = limit_text, noticeType = Error\<rparr>\<rparr>) \<and>
     (mapCenter s \<noteq> None \<longrightarrow>
        handleQuickPublish now s
          = s\<lparr>notification := Some \<lparr>message = limit_text, noticeType = Error\<rparr>\<rparr>)"
  by (auto simp: handleCreateEncounter_def handleQuickPublish_def showNotification_def
           split: option.splits)

theorem publish_at_capacity_witness:
  "5 \<le> length (myEncounters full_state) \<and>
   mapCenter full_state \<noteq> None \<and> newEncounterTitle full_state \<noteq> [] \<and>
   newEncounterDesc full_state \<noteq> [] \<and>
   myEncounters (handleCreateEncounter 7 full_state) = myEncounters full_state \<and>
   myEncounters (handleQuickPublish 7 full_state) = myEncounters full_state \<and>
   notification (handleCreateEncounter 7 full_state)
     = Some \<lparr>message = limit_text, noticeType = Error\<rparr> \<and>
   notification (handleQuickPublish 7 full_state)
     = Some \<lparr>message = limit_text, noticeType = Error\<rparr>"
proof -
  have five: "5 \<le> length (myEncounters full_state)"
    by (simp add: full_state_def sample_state_def)
  have pre: "mapCenter full_state \<noteq> None \<and> newEncounterTitle full_state \<noteq> [] \<and>
             newEncounterDesc full_state \<noteq> []"
    by (simp add: full_state_def sample_state_def)
  from publish_at_capacity [OF five, of 7] pre five show ?thesis by simp
qed

text \<open>
  C10. Publishing an own post, in detail or quickly, and deleting an own post leave every
  candidate post, status included, and every chat session as they were.
\<close>

theorem own_post_ops_frame:
  "nearbyEncounters (handleCreateEncounter now s) = nearbyEncounters s \<and>
   chats (handleCreateEncounter now s) = chats s \<and>
   nearbyEncounters (handleQuickPublish now s) = nearbyEncounters s \<and>
   chats (handleQuickPublish now s) = chats s \<and>
   nearbyEncounters (deleteEncounter e s) = nearbyEncounters s \<and>
   chats (deleteEncounter e s) = chats s"
  by (simp add: handleCreateEncounter_def handleQuickPublish_def deleteEncounter_def
        showNotification_def Let_def split: option.splits)

section \<open>Properties of the lifecycle handlers\<close>

text \<open>
  C2. Connect on a candidate of the catalog whose status is \<open>PENDING\<close> makes it
  \<open>LIKED_BY_ME\<close> and leaves the chat sessions alone. Connect on one whose status is
  \<open>LIKED_BY_THEM\<close> makes it \<open>MATCHED\<close> and puts one new session in front of the others:
  keyed by the candidate's id, unread count 1, two messages, the first from the system
  and the second from the partner with the opener as its text.
\<close>

theorem handleConnect_spec:
  assumes "e \<in> set (nearbyEncounters s)"
  shows "(status e = PENDING \<longrightarrow>
            statusOf (encId e) (nearbyEncounters (handleConnect e msg now s)) = Some LIKED_BY_ME \<and>
            chats (handleConnect e msg now s) = chats s) \<and>
         (status e = LIKED_BY_THEM \<longrightarrow>
            statusOf (encId e) (nearbyEncounters (handleConnect e msg now s)) = Some MATCHED \<and>
            (\<exists>c. chats (handleConnect e msg now s) = c # chats s \<and>
                 encounterId c = encId e \<and> unreadCount c = 1 \<and>
                 length (messages c) = 2 \<and>
                 senderId (messages c ! 0) = ''system'' \<and>
                 senderId (messages c ! 1) = userId e \<and>
                 msgText (messages c ! 1) = msg))"
proof -
  have ex: "\<exists>x \<in> set (nearbyEncounters s). encId x = encId e"
    using assms by blast
  have st: "statusOf (encId e)
              (map (\<lambda>x. if encId x = encId e then e\<lparr>status := v\<rparr> else x) (nearbyEncounters s))
            = Some v" for v
    using statusOf_replace [OF ex, of "\<lambda>_. e\<lparr>status := v\<rparr>" v] by simp
  show ?thesis
    by (simp add: handleConnect_def handleConnect_begin_def handleConnect_resume_def
          showNotification_def Let_def st)
qed

theorem handleConnect_spec_witness:
  "sample_post ''p'' 0 0 PENDING
     \<in> set (nearbyEncounters (sample_with [sample_post ''p'' 0 0 PENDING,
              sample_post ''l'' 0 0 LIKED_BY_THEM] [] None None ViewDetails)) \<and>
   statusOf ''p'' (nearbyEncounters (handleConnect (sample_post ''p'' 0 0 PENDING) ''hola'' 5
      (sample_with [sample_post ''p'' 0 0 PENDING, sample_post ''l'' 0 0 LIKED_BY_THEM]
         [] None None ViewDetails))) = Some LIKED_BY_ME \<and>
   chats (handleConnect (sample_post ''p'' 0 0 PENDING) ''hola'' 5
      (sample_with [sample_post ''p'' 0 0 PENDING, sample_post ''l'' 0 0 LIKED_BY_THEM]
         [] None None ViewDetails)) = [] \<and>
   statusOf ''l'' (nearbyEncounters (handleConnect (sample_post ''l'' 0 0 LIKED_BY_THEM) ''hola'' 5
      (sample_with [sample_post ''p'' 0 0 PENDING, sample_post ''l'' 0 0 LIKED_BY_THEM]
         [] None None ViewDetails))) = Some MATCHED \<and>
   map (\<lambda>c. (encounterId c, unreadCount c, length (messages c)))
     (chats (handleConnect (sample_post ''l'' 0 0 LIKED_BY_THEM) ''hola'' 5
      (sample_with [sample_post ''p'' 0 0 PENDING, sample_post ''l'' 0 0 LIKED_BY_THEM]
         [] None None ViewDetails))) = [(''l'', 1, 2)]"
  using handleConnect_spec [of "sample_post ''p'' 0 0 PENDING"
          "sample_with [sample_post ''p'' 0 0 PENDING, sample_post ''l'' 0 0 LIKED_BY_THEM]
             [] None None ViewDetails" "''hola''" 5]
        handleConnect_spec [of "sample_post ''l'' 0 0 LIKED_BY_THEM"
          "sample_with [sample_post ''p'' 0 0 PENDING, sample_post ''l'' 0 0 LIKED_BY_THEM]
             [] None None ViewDetails" "''hola''" 5]
  by (auto simp: sample_with_def sample_state_def sample_post_def sample_profile_def)

text \<open>
  C8. Unmatch on the selected candidate, \<open>MATCHED\<close> in the catalog, makes it \<open>PENDING\<close>,
  not \<open>HIDDEN\<close>, and the lookup of a chat session by its id finds none afterwards.
\<close>

theorem handleUnmatch_spec:
  assumes "selectedEncounter s = Some e"
      and "statusOf (encId e) (nearbyEncounters s) = Some MATCHED"
  shows "statusOf (encId e) (nearbyEncounters (handleUnmatch s)) = Some PENDING \<and>
         chatOf (encId e) (chats (handleUnmatch s)) = None"
proof -
  from assms(2) have ex: "\<exists>x \<in> set (nearbyEncounters s). encId x = encId e"
    by (rule statusOf_Some_ex)
  have "statusOf (encId e)
          (map (\<lambda>x. if encId x = encId e then x\<lparr>status := PENDING\<rparr> else x) (nearbyEncounters s))
        = Some PENDING"
    using statusOf_replace [OF ex, of "\<lambda>x. x\<lparr>status := PENDING\<rparr>" PENDING] by simp
  then show ?thesis
    using assms(1) by (simp add: handleUnmatch_def showNotification_def chatOf_filter_out)
qed

theorem handleUnmatch_spec_witness:
  "selectedEncounter (sample_with [sample_post ''c'' 0 0 MATCHED] [sample_chat ''c'']
      (Some (sample_post ''c'' 0 0 MATCHED)) None ViewDetails)
     = Some (sample_post ''c'' 0 0 MATCHED) \<and>
   statusOf ''c'' (nearbyEncounters (sample_with [sample_post ''c'' 0 0 MATCHED] [sample_chat ''c'']
      (Some (sample_post ''c'' 0 0 MATCHED)) None ViewDetails)) = Some MATCHED \<and>
   chatOf ''c'' (chats (sample_with [sample_post ''c'' 0 0 MATCHED] [sample_chat ''c'']
      (Some (sample_post ''c'' 0 0 MATCHED)) None ViewDetails)) = Some (sample_chat ''c'') \<and>
   statusOf ''c'' (nearbyEncounters (handleUnmatch (sample_with [sample_post ''c'' 0 0 MATCHED]
      [sample_chat ''c''] (Some (sample_post ''c'' 0 0 MATCHED)) None ViewDetails)))
     = Some PENDING \<and>
   chatOf ''c'' (chats (handleUnmatch (sample_with [sample_post ''c'' 0 0 MATCHED]
      [sample_chat ''c''] (Some (sample_post ''c'' 0 0 MATCHED)) None ViewDetails))) = None"
proof -
  have sel: "selectedEncounter (sample_with [sample_post ''c'' 0 0 MATCHED] [sample_chat ''c'']
      (Some (sample_post ''c'' 0 0 MATCHED)) None ViewDetails)
     = Some (sample_post ''c'' 0 0 MATCHED)"
    by (simp add: sample_with_def)
  have st: "statusOf (encId (sample_post ''c'' 0 0 MATCHED))
      (nearbyEncounters (sample_with [sample_post ''c'' 0 0 MATCHED] [sample_chat ''c'']
      (Some (sample_post ''c'' 0 0 MATCHED)) None ViewDetails)) = Some MATCHED"
    by (simp add: sample_with_def statusOf_def sample_post_def)
  have ch: "chatOf ''c'' (chats (sample_with [sample_post ''c'' 0 0 MATCHED] [sample_chat ''c'']
      (Some (sample_post ''c'' 0 0 MATCHED)) None ViewDetails)) = Some (sample_chat ''c'')"
    by (simp add: sample_with_def chatOf_def sample_chat_def)
  from handleUnmatch_spec [OF sel st] sel st ch show ?thesis
    by (simp add: sample_post_def)
qed

text \<open>
  C3, as the handlers have it. None of the three handlers looks at the status before it
  writes, and none rejects a call. Connect on a candidate of the catalog whose status is
  anything but \<open>LIKED_BY_THEM\<close>, so \<open>MATCHED\<close> and \<open>HIDDEN\<close> too, makes it
  \<open>LIKED_BY_ME\<close> and leaves the chat sessions alone. Reject on the selected candidate
  makes it \<open>HIDDEN\<close> whatever it was, \<open>MATCHED\<close> and \<open>LIKED_BY_THEM\<close> included, and
  leaves the chat sessions alone. Unmatch on the selected candidate makes it \<open>PENDING\<close>
  whatever it was and drops the chat sessions with its id. What keeps the transitions
  apart is the details view: it offers Unmatch on a \<open>MATCHED\<close> candidate only, and
  Connect and Reject on every candidate that is neither \<open>MATCHED\<close> nor \<open>LIKED_BY_ME\<close>,
  so on a \<open>HIDDEN\<close> and on a \<open>LIKED_BY_THEM\<close> one as well.
\<close>

theorem lifecycle_handlers_unguarded:
  assumes "e \<in> set (nearbyEncounters s)"
  shows "(status e \<noteq> LIKED_BY_THEM \<longrightarrow>
            statusOf (encId e) (nearbyEncounters (handleConnect e msg now s)) = Some LIKED_BY_ME \<and>
            chats (handleConnect e msg now s) = chats s) \<and>
         (selectedEncounter s = Some e \<longrightarrow>
            statusOf (encId e) (nearbyEncounters (handleReject s)) = Some HIDDEN \<and>
            chats (handleReject s) = chats s \<and>
            statusOf (encId e) (nearbyEncounters (handleUnmatch s)) = Some PENDING \<and>
            chats (handleUnmatch s) = filter (\<lambda>c. encounterId c \<noteq> encId e) (chats s)) \<and>
         (\<forall>st. (OfferUnmatch \<in> set (detailsActions st)) = (st = MATCHED)) \<and>
         (\<forall>st. (OfferConnect \<in> set (detailsActions st)) = (st \<noteq> MATCHED \<and> st \<noteq> LIKED_BY_ME)) \<and>
         (\<forall>st. (OfferReject \<in> set (detailsActions st)) = (st \<noteq> MATCHED \<and> st \<noteq> LIKED_BY_ME))"
proof -
  have ex: "\<exists>x \<in> set (nearbyEncounters s). encId x = encId e"
    using assms by blast
  have st: "statusOf (encId e)
              (map (\<lambda>x. if encId x = encId e then e\<lparr>status := v\<rparr> else x) (nearbyEncounters s))
            = Some v" for v
    using statusOf_replace [OF ex, of "\<lambda>_. e\<lparr>status := v\<rparr>" v] by simp
  have st': "statusOf (encId e)
          (map (\<lambda>x. if encId x = encId e then x\<lparr>status := PENDING\<rparr> else x) (nearbyEncounters s))
        = Some PENDING"
    using statusOf_replace [OF ex, of "\<lambda>x. x\<lparr>status := PENDING\<rparr>" PENDING] by simp
  have connect: "status e \<noteq> LIKED_BY_THEM \<longrightarrow>
            statusOf (encId e) (nearbyEncounters (handleConnect e msg now s)) = Some LIKED_BY_ME \<and>
            chats (handleConnect e msg now s) = chats s"
    by (simp add: handleConnect_def handleConnect_begin_def handleConnect_resume_def
          showNotification_def Let_def st)
  have sel: "selectedEncounter s = Some e \<longrightarrow>
            statusOf (encId e) (nearbyEncounters (handleReject s)) = Some HIDDEN \<and>
            chats (handleReject s) = chats s \<and>
            statusOf (encId e) (nearbyEncounters (handleUnmatch s)) = Some PENDING \<and>
            chats (handleUnmatch s) = filter (\<lambda>c. encounterId c \<noteq> encId e) (chats s)"
    by (simp add: handleReject_def handleUnmatch_def showNotification_def Let_def st st')
  have view: "(\<forall>st. (OfferUnmatch \<in> set (detailsActions st)) = (st = MATCHED)) \<and>
         (\<forall>st. (OfferConnect \<in> set (detailsActions st)) = (st \<noteq> MATCHED \<and> st \<noteq> LIKED_BY_ME)) \<and>
         (\<forall>st. (OfferReject \<in> set (detailsActions st)) = (st \<noteq> MATCHED \<and> st \<noteq> LIKED_BY_ME))"
    by (simp add: detailsActions_def)
  from connect sel view show ?thesis by blast
qed

theorem lifecycle_handlers_unguarded_witness:
  "sample_post ''h'' 0 0 HIDDEN
     \<in> set (nearbyEncounters (sample_with [sample_post ''h'' 0 0 HIDDEN] [sample_chat ''h'']
                (Some (sample_post ''h'' 0 0 HIDDEN)) None ViewDetails)) \<and>
   status (sample_post ''h'' 0 0 HIDDEN) \<noteq> LIKED_BY_THEM \<and>
   selectedEncounter (sample_with [sample_post ''h'' 0 0 HIDDEN] [sample_chat ''h'']
      (Some (sample_post ''h'' 0 0 HIDDEN)) None ViewDetails)
     = Some (sample_post ''h'' 0 0 HIDDEN) \<and>
   statusOf ''h'' (nearbyEncounters (handleConnect (sample_post ''h'' 0 0 HIDDEN) ''hola'' 5
      (sample_with [sample_post ''h'' 0 0 HIDDEN] [sample_chat ''h'']
         (Some (sample_post ''h'' 0 0 HIDDEN)) None ViewDetails))) = Some LIKED_BY_ME \<and>
   statusOf ''h'' (nearbyEncounters (handleReject
      (sample_with [sample_post ''h'' 0 0 HIDDEN] [sample_chat ''h'']
         (Some (sample_post ''h'' 0 0 HIDDEN)) None ViewDetails))) = Some HIDDEN \<and>
   statusOf ''h'' (nearbyEncounters (handleUnmatch
      (sample_with [sample_post ''h'' 0 0 HIDDEN] [sample_chat ''h'']
         (Some (sample_post ''h'' 0 0 HIDDEN)) None ViewDetails))) = Some PENDING \<and>
   chats (handleUnmatch
      (sample_with [sample_post ''h'' 0 0 HIDDEN] [sample_chat ''h'']
         (Some (sample_post ''h'' 0 0 HIDDEN)) None ViewDetails)) = []"
proof -
  have mem: "sample_post ''h'' 0 0 HIDDEN
     \<in> set (nearbyEncounters (sample_with [sample_post ''h'' 0 0 HIDDEN] [sample_chat ''h'']
                (Some (sample_post ''h'' 0 0 HIDDEN)) None ViewDetails))"
    by (simp add: sample_with_def)
  have pre: "status (sample_post ''h'' 0 0 HIDDEN) \<noteq> LIKED_BY_THEM \<and>
     selectedEncounter (sample_with [sample_post ''h'' 0 0 HIDDEN] [sample_chat ''h'']
        (Some (sample_post ''h'' 0 0 HIDDEN)) None ViewDetails)
       = Some (sample_post ''h'' 0 0 HIDDEN)"
    by (simp add: sample_with_def sample_post_def)
  have cs: "chats (sample_with [sample_post ''h'' 0 0 HIDDEN] [sample_chat ''h'']
        (Some (sample_post ''h'' 0 0 HIDDEN)) None ViewDetails) = [sample_chat ''h'']"
    by (simp add: sample_with_def)
  have ids: "encId (sample_post ''h'' 0 0 HIDDEN) = ''h''" "encounterId (sample_chat ''h'') = ''h''"
    by (simp_all add: sample_post_def sample_chat_def)
  from lifecycle_handlers_unguarded [OF mem, of "''hola''" 5] mem pre show ?thesis
    by (simp add: cs ids)
qed

text \<open>
  C3, as stated, fails. Connect on a \<open>HIDDEN\<close> candidate, which the details view offers,
  makes it \<open>LIKED_BY_ME\<close>; Reject on a \<open>LIKED_BY_THEM\<close> candidate, offered as well, makes
  it \<open>HIDDEN\<close>; Unmatch on a \<open>HIDDEN\<close> candidate makes it \<open>PENDING\<close>. None of them leaves
  the status as it was.
\<close>

theorem invalid_transitions_counterexample:
  "statusOf ''h''
     (nearbyEncounters (sample_with [sample_post ''h'' 0 0 HIDDEN] []
        (Some (sample_post ''h'' 0 0 HIDDEN)) None ViewDetails)) = Some HIDDEN \<and>
   OfferConnect \<in> set (detailsActions HIDDEN) \<and>
   statusOf ''h''
     (nearbyEncounters (handleConnect (sample_post ''h'' 0 0 HIDDEN) ''hola'' 5
        (sample_with [sample_post ''h'' 0 0 HIDDEN] []
           (Some (sample_post ''h'' 0 0 HIDDEN)) None ViewDetails))) = Some LIKED_BY_ME \<and>
   statusOf ''l''
     (nearbyEncounters (sample_with [sample_post ''l'' 0 0 LIKED_BY_THEM] []
        (Some (sample_post ''l'' 0 0 LIKED_BY_THEM)) None ViewDetails)) = Some LIKED_BY_THEM \<and>
   OfferReject \<in> set (detailsActions LIKED_BY_THEM) \<and>
   statusOf ''l''
     (nearbyEncounters (handleReject
        (sample_with [sample_post ''l'' 0 0 LIKED_BY_THEM] []
           (Some (sample_post ''l'' 0 0 LIKED_BY_THEM)) None ViewDetails))) = Some HIDDEN \<and>
   statusOf ''h''
     (nearbyEncounters (handleUnmatch
        (sample_with [sample_post ''h'' 0 0 HIDDEN] []
           (Some (sample_post ''h'' 0 0 HIDDEN)) None ViewDetails))) = Some PENDING"
  by (simp add: statusOf_def handleConnect_def handleConnect_begin_def handleConnect_resume_def
        handleReject_def handleUnmatch_def showNotification_def sample_with_def
        sample_state_def sample_post_def sample_profile_def detailsActions_def Let_def)

section \<open>Properties of the chat sessions\<close>

text \<open>
  Reject, Unmatch, opening a chat, sending a message, its delayed reply and the first half
  of Connect keep the chat sessions apart: after each of them no two sessions carry the
  same encounter id, if none did before.
\<close>

lemma handlers_keep_oneSessionPerPost:
  assumes "oneSessionPerPost s"
  shows "oneSessionPerPost (handleConnect_begin e s)"
    and "oneSessionPerPost (handleReject s)"
    and "oneSessionPerPost (handleUnmatch s)"
    and "oneSessionPerPost (openChat i now s)"
    and "oneSessionPerPost (fst (sendMessage txt now s))"
    and "sendMessage txt' t0 s0 = (s1, Some p) \<Longrightarrow> oneSessionPerPost (replyTimeout p now s)"
proof -
  show "oneSessionPerPost (handleConnect_begin e s)"
    using assms
    by (simp add: oneSessionPerPost_def handleConnect_begin_def Let_def showNotification_def)
  show "oneSessionPerPost (handleReject s)"
    using assms
    by (simp add: oneSessionPerPost_def handleReject_def Let_def showNotification_def
          split: option.splits)
  show "oneSessionPerPost (handleUnmatch s)"
    using assms
    by (simp add: oneSessionPerPost_def handleUnmatch_def showNotification_def
          distinct_map_filter split: option.splits)
  show "oneSessionPerPost (openChat i now s)"
  proof (cases "find (\<lambda>c. encounterId c = i) (chats s)")
    case (Some c)
    then have "encounterId c = i" by (rule find_chat_id)
    with Some assms show ?thesis
      by (simp add: oneSessionPerPost_def openChat_def Let_def map_replace_ids map_replace_ids_comp)
  next
    case None
    then have fresh: "i \<notin> set (map encounterId (chats s))"
      by (auto simp: find_None_iff)
    show ?thesis
    proof (cases "find (\<lambda>e. encId e = i) (nearbyEncounters s)")
      case None
      with \<open>find (\<lambda>c. encounterId c = i) (chats s) = None\<close> have "openChat i now s = s"
        by (simp add: openChat_def)
      with assms show ?thesis by simp
    next
      case (Some enc)
      then have "encId enc = i" by (rule find_enc_id)
      with Some \<open>find (\<lambda>c. encounterId c = i) (chats s) = None\<close>
      have "map encounterId (chats (openChat i now s)) = map encounterId (chats s) @ [i]"
        by (simp add: openChat_def Let_def map_replace_ids map_replace_ids_comp)
      with assms fresh show ?thesis
        by (simp add: oneSessionPerPost_def)
    qed
  qed
  show "oneSessionPerPost (fst (sendMessage txt now s))"
    using assms
    by (simp add: oneSessionPerPost_def sendMessage_def Let_def map_replace_ids map_replace_ids_comp
          split: option.splits)
  show "oneSessionPerPost (replyTimeout p now s)" if "sendMessage txt' t0 s0 = (s1, Some p)"
    using assms sendMessage_captures [OF that]
    by (simp add: oneSessionPerPost_def replyTimeout_def Let_def showNotification_def
          map_replace_ids map_replace_ids_comp)
qed

text \<open>
  C4 does not hold of Connect. A candidate with status \<open>LIKED_BY_THEM\<close> is selected in the
  details view and no session exists. Connect runs up to its \<^verbatim>\<open>await\<close>: the candidate is
  \<open>MATCHED\<close> now, and the view offers the chat button. The user presses it before the
  opener has arrived: \<open>openChat\<close> finds no session and creates the recovery session. Then
  the opener arrives and the rest of Connect puts its own session in front, without the
  lookup that \<open>openChat\<close> makes. Two sessions carry the id of the one candidate.
\<close>

theorem connect_races_openChat:
  "oneSessionPerPost
     (sample_with [sample_post ''c'' 0 0 LIKED_BY_THEM] []
        (Some (sample_post ''c'' 0 0 LIKED_BY_THEM)) None ViewDetails) \<and>
   map_option (\<lambda>e. detailsActions (status e))
     (selectedEncounter
        (handleConnect_begin (sample_post ''c'' 0 0 LIKED_BY_THEM)
           (sample_with [sample_post ''c'' 0 0 LIKED_BY_THEM] []
              (Some (sample_post ''c'' 0 0 LIKED_BY_THEM)) None ViewDetails)))
     = Some [OfferUnmatch, OfferChat] \<and>
   map encounterId
     (chats
        (handleConnect_resume (sample_post ''c'' 0 0 LIKED_BY_THEM) ''hola'' 2
           (openChat ''c'' 1
              (handleConnect_begin (sample_post ''c'' 0 0 LIKED_BY_THEM)
                 (sample_with [sample_post ''c'' 0 0 LIKED_BY_THEM] []
                    (Some (sample_post ''c'' 0 0 LIKED_BY_THEM)) None ViewDetails)))))
     = [''c'', ''c''] \<and>
   \<not> oneSessionPerPost
        (handleConnect_resume (sample_post ''c'' 0 0 LIKED_BY_THEM) ''hola'' 2
           (openChat ''c'' 1
              (handleConnect_begin (sample_post ''c'' 0 0 LIKED_BY_THEM)
                 (sample_with [sample_post ''c'' 0 0 LIKED_BY_THEM] []
                    (Some (sample_post ''c'' 0 0 LIKED_BY_THEM)) None ViewDetails))))"
  by (simp add: oneSessionPerPost_def handleConnect_resume_def openChat_def
        handleConnect_begin_def sample_with_def sample_state_def sample_post_def
        sample_profile_def detailsActions_def Let_def)

section \<open>Properties of the delayed reply\<close>

text \<open>
  The part of C6 that holds. A message was sent from the open chat of a candidate, and the
  candidate, selected, is unmatched before the reply fires. Unmatch leaves no session with
  the candidate's id. The reply that fires on that state changes no chat session, leaves
  no chat active, changes no candidate and raises no error toast; sent from the chat view,
  as the chat form sends it, it changes nothing at all but the typing flag. On any later
  state the reply creates and removes no session, and it changes no session as long as
  none with the candidate's id exists.
\<close>

theorem late_reply_discarded:
  assumes sent: "sendMessage txt t0 s0 = (s1, Some p)"
      and sel: "selectedEncounter s = Some e"
      and same: "map_option encounterId (activeChat s0) = Some (encId e)"
  shows "chatOf (encId e) (chats (handleUnmatch s)) = None \<and>
         chats (replyTimeout p now (handleUnmatch s)) = chats (handleUnmatch s) \<and>
         activeChat (replyTimeout p now (handleUnmatch s)) = None \<and>
         nearbyEncounters (replyTimeout p now (handleUnmatch s))
           = nearbyEncounters (handleUnmatch s) \<and>
         (\<forall>n. notification (replyTimeout p now (handleUnmatch s)) = Some n
                \<longrightarrow> noticeType n \<noteq> Error) \<and>
         (currentView s0 = ViewChat \<longrightarrow>
            replyTimeout p now (handleUnmatch s) = (handleUnmatch s)\<lparr>isTyping := False\<rparr>) \<and>
         (\<forall>t. map encounterId (chats (replyTimeout p now t)) = map encounterId (chats t)) \<and>
         (\<forall>t. chatOf (encId e) (chats t) = None \<longrightarrow> chats (replyTimeout p now t) = chats t)"
proof -
  from sent same obtain ac where ac: "activeChat s0 = Some ac" "encounterId ac = encId e"
    and p: "p = \<lparr>capturedActiveChat = ac, capturedView = currentView s0,
                 capturedUpdatedChat =
                   ac\<lparr>messages := messages ac @
                       [\<lparr>msgId = ''msg-'' @ show_nat t0, senderId = profileId (myProfile s0),
                         msgText = txt, msgTimestamp = t0\<rparr>]\<rparr>\<rparr>"
    by (auto simp: sendMessage_def Let_def split: option.splits)
  have cap: "encounterId (capturedActiveChat p) = encId e"
            "encounterId (capturedUpdatedChat p) = encId e"
    using ac p by simp_all
  let ?u = "handleUnmatch s"
  have gone: "chatOf (encId e) (chats ?u) = None"
    using sel by (simp add: handleUnmatch_def showNotification_def chatOf_filter_out)
  have absent: "chats (replyTimeout p now t) = chats t" if "chatOf (encId e) (chats t) = None" for t
  proof -
    from that have "\<forall>c \<in> set (chats t). encounterId c \<noteq> encId e"
      by (simp add: chatOf_None_iff)
    then show ?thesis
      using cap by (simp add: replyTimeout_def Let_def showNotification_def map_replace_absent)
  qed
  have ids: "map encounterId (chats (replyTimeout p now t)) = map encounterId (chats t)" for t
    using cap by (simp add: replyTimeout_def Let_def showNotification_def map_replace_ids)
  have act: "activeChat (replyTimeout p now ?u) = None"
    using sel by (simp add: replyTimeout_def Let_def showNotification_def handleUnmatch_def)
  have near: "nearbyEncounters (replyTimeout p now ?u) = nearbyEncounters ?u"
    by (simp add: replyTimeout_def Let_def showNotification_def)
  have toast: "\<forall>n. notification (replyTimeout p now ?u) = Some n \<longrightarrow> noticeType n \<noteq> Error"
    using sel by (auto simp: replyTimeout_def Let_def showNotification_def handleUnmatch_def)
  have silent: "currentView s0 = ViewChat \<longrightarrow> replyTimeout p now ?u = ?u\<lparr>isTyping := False\<rparr>"
  proof
    assume v: "currentView s0 = ViewChat"
    from gone have "\<forall>c \<in> set (chats ?u). encounterId c \<noteq> encId e"
      by (simp add: chatOf_None_iff)
    then have m: "map (\<lambda>c. if encounterId c = encId e then f c else c) (chats ?u) = chats ?u" for f
      by (rule map_replace_absent)
    have a: "activeChat ?u = None"
      using sel by (simp add: handleUnmatch_def showNotification_def)
    show "replyTimeout p now ?u = ?u\<lparr>isTyping := False\<rparr>"
      using v ac a by (simp add: replyTimeout_def Let_def p m)
  qed
  from gone absent [OF gone] act near toast silent ids absent show ?thesis by blast
qed

theorem late_reply_discarded_witness:
  "sendMessage ''hola'' 1 chat_open_state = (sent_state, Some sample_pending) \<and>
   selectedEncounter (handleViewProfile ''c'' sent_state) = Some (sample_post ''c'' 0 0 MATCHED) \<and>
   map_option encounterId (activeChat chat_open_state) = Some ''c'' \<and>
   currentView chat_open_state = ViewChat \<and>
   map encounterId (chats (handleViewProfile ''c'' sent_state)) = [''c''] \<and>
   chats (handleUnmatch (handleViewProfile ''c'' sent_state)) = [] \<and>
   chats (replyTimeout sample_pending 9 (handleUnmatch (handleViewProfile ''c'' sent_state))) = [] \<and>
   activeChat (replyTimeout sample_pending 9 (handleUnmatch (handleViewProfile ''c'' sent_state)))
     = None \<and>
   replyTimeout sample_pending 9 (handleUnmatch (handleViewProfile ''c'' sent_state))
     = (handleUnmatch (handleViewProfile ''c'' sent_state))\<lparr>isTyping := False\<rparr>"
proof -
  have sent: "sendMessage ''hola'' 1 chat_open_state = (sent_state, Some sample_pending)"
    by (rule sendMessage_sample)
  have snt: "sent_state =
      chat_open_state\<lparr>activeChat := Some (capturedUpdatedChat sample_pending),
                       chats := [capturedUpdatedChat sample_pending], isTyping := True\<rparr>"
    by (simp add: sent_state_def sendMessage_def chat_open_state_def sample_with_def
          sample_state_def sample_pending_def sample_profile_def sample_chat_def Let_def)
  have sel: "selectedEncounter (handleViewProfile ''c'' sent_state)
               = Some (sample_post ''c'' 0 0 MATCHED)"
    by (simp add: snt handleViewProfile_def chat_open_state_def sample_with_def sample_post_def)
  have same: "map_option encounterId (activeChat chat_open_state)
                = Some (encId (sample_post ''c'' 0 0 MATCHED))"
    by (simp add: chat_open_state_def sample_with_def sample_chat_def sample_post_def)
  have view: "currentView chat_open_state = ViewChat"
    by (simp add: chat_open_state_def sample_with_def)
  have before: "map encounterId (chats (handleViewProfile ''c'' sent_state)) = [''c'']"
    by (simp add: snt handleViewProfile_def chat_open_state_def sample_with_def sample_post_def
          sample_pending_def sample_chat_def)
  have after: "chats (handleUnmatch (handleViewProfile ''c'' sent_state)) = []"
    by (simp add: snt handleViewProfile_def handleUnmatch_def showNotification_def
          chat_open_state_def sample_with_def sample_post_def sample_pending_def sample_chat_def)
  have act: "activeChat (handleUnmatch (handleViewProfile ''c'' sent_state)) = None"
    using sel by (simp add: handleUnmatch_def showNotification_def)
  have i: "encId (sample_post ''c'' 0 0 MATCHED) = ''c''"
    by (simp add: sample_post_def)
  from late_reply_discarded [OF sent sel same, of 9] sent sel same view before after act
  show ?thesis by (simp add: i)
qed

text \<open>
  C6 does not hold once a session with the candidate's id exists again when the reply
  fires, and the rest of Connect can make one. Connect on the candidate who liked first
  runs up to its \<^verbatim>\<open>await\<close>; the chat button creates the recovery session; a message is
  sent from it, which arms the reply; the partner's name leads to the details view, the
  cross to the dialog, and Unmatch removes the session and makes the candidate
  \<open>PENDING\<close>. Then the opener arrives and the rest of Connect puts its session in front,
  keyed by the candidate no longer matched. Then the reply fires: it replaces that
  session by the destroyed one, with the recovery message, the user's message and the
  reply, unread count 0.
\<close>

theorem stale_reply_overwrites_session:
  "snd message_sent = Some recovery_pending \<and>
   statusOf ''c'' (nearbyEncounters unmatched_in_flight) = Some PENDING \<and>
   chats unmatched_in_flight = [] \<and>
   map (\<lambda>c. (encounterId c, unreadCount c, map msgId (messages c)))
     (chats (handleConnect_resume liked_post ''opener'' 8 unmatched_in_flight))
     = [(''c'', 1, [''sys-1'', ''initial-1''])] \<and>
   statusOf ''c''
     (nearbyEncounters
        (replyTimeout recovery_pending 9
           (handleConnect_resume liked_post ''opener'' 8 unmatched_in_flight)))
     = Some PENDING \<and>
   map (\<lambda>c. (encounterId c, unreadCount c, map senderId (messages c)))
     (chats
        (replyTimeout recovery_pending 9
           (handleConnect_resume liked_post ''opener'' 8 unmatched_in_flight)))
     = [(''c'', 0, [''system'', ''me'', ''partner''])] \<and>
   map (\<lambda>c. map msgText (messages c))
     (chats
        (replyTimeout recovery_pending 9
           (handleConnect_resume liked_post ''opener'' 8 unmatched_in_flight)))
     = [[match_text, ''hola'', canned_reply_text]]"
proof -
  have opened: "openChat ''c'' 1 (handleConnect_begin liked_post liked_state) =
      liked_state\<lparr>nearbyEncounters := [liked_post\<lparr>status := MATCHED\<rparr>],
                  selectedEncounter := Some (liked_post\<lparr>status := MATCHED\<rparr>),
                  chats := [recovery_chat], activeChat := Some recovery_chat,
                  currentView := ViewChat, showMatchOverlay := None\<rparr>"
    by (simp add: openChat_def handleConnect_begin_def liked_state_def liked_post_def
          sample_with_def sample_state_def sample_post_def sample_profile_def
          recovery_chat_def first_image_def Let_def)
  have sent: "message_sent =
      (liked_state\<lparr>nearbyEncounters := [liked_post\<lparr>status := MATCHED\<rparr>],
                   selectedEncounter := Some (liked_post\<lparr>status := MATCHED\<rparr>),
                   chats := [capturedUpdatedChat recovery_pending],
                   activeChat := Some (capturedUpdatedChat recovery_pending),
                   currentView := ViewChat, showMatchOverlay := None, isTyping := True\<rparr>,
       Some recovery_pending)"
    unfolding message_sent_def opened
    by (simp add: sendMessage_def recovery_pending_def recovery_chat_def liked_state_def
          sample_with_def sample_state_def sample_profile_def Let_def)
  have unmatched: "nearbyEncounters unmatched_in_flight = [liked_post\<lparr>status := PENDING\<rparr>]"
                  "chats unmatched_in_flight = []"
                  "activeChat unmatched_in_flight = None"
    by (simp_all add: unmatched_in_flight_def sent handleViewProfile_def openUnmatchDialog_def
          handleUnmatch_def showNotification_def liked_post_def sample_post_def
          recovery_pending_def recovery_chat_def)
  show ?thesis
    by (simp add: sent unmatched statusOf_def handleConnect_resume_def replyTimeout_def
          Let_def liked_post_def sample_post_def sample_profile_def recovery_pending_def
          recovery_chat_def first_image_def)
qed

text \<open>
  The view that the reply tests is the one of the moment of sending: the state's view at
  the moment of firing passes through the callback untouched and unread.
\<close>

lemma reply_ignores_view_at_firing:
  "replyTimeout p now (t\<lparr>currentView := v\<rparr>) = (replyTimeout p now t)\<lparr>currentView := v\<rparr>"
  by (simp add: replyTimeout_def Let_def showNotification_def)

text \<open>
  The half of C7 that holds: a message sent from the chat view, then the reply with
  nothing in between. The session has the messages of the open chat and two more, and
  its unread count is the one of the open chat, which opening had set to zero.
\<close>

lemma focused_reply_adds_two:
  assumes "activeChat s0 = Some ac" and "currentView s0 = ViewChat"
      and "sendMessage txt t0 s0 = (s1, Some p)"
      and "c \<in> set (chats (replyTimeout p now s1))" and "encounterId c = encounterId ac"
  shows "unreadCount c = unreadCount ac \<and> length (messages c) = length (messages ac) + 2"
  using assms
  by (auto simp: sendMessage_def replyTimeout_def Let_def split: if_splits)

text \<open>
  C7 does not hold of a chat that has lost the focus. The chat of candidate \<open>c\<close> is open,
  unread count 0. The user sends a message and leaves the chat with the back arrow, so
  that the main view shows when the reply fires. The callback compares the view it
  captured when the message was sent, which is the chat view, and takes the branch of the
  focused chat: the unread count is still 0, where it should be 1, and no toast tells of
  the new message.
\<close>

theorem reply_after_leaving_chat:
  "sendMessage ''hola'' 1 chat_open_state = (sent_state, Some sample_pending) \<and>
   currentView chat_open_state = ViewChat \<and>
   currentView (backToMain sent_state) = ViewMain \<and>
   map unreadCount (chats (backToMain sent_state)) = [0] \<and>
   map unreadCount (chats (replyTimeout sample_pending 9 (backToMain sent_state))) = [0] \<and>
   notification (replyTimeout sample_pending 9 (backToMain sent_state)) = None"
  by (simp add: sent_state_def sendMessage_def chat_open_state_def sample_with_def
        sample_state_def sample_pending_def sample_profile_def sample_chat_def Let_def
        backToMain_def replyTimeout_def)

section \<open>Properties of the clustering\<close>

text \<open>
  The distance of the source at two places: 1 for a place and itself, 0 for two places
  on the equator a hundred degrees of longitude apart.
\<close>

lemma clusterDist_same_place: "clusterDist a a = Num 1"
  by (simp add: clusterDist_def js_sub_def Math_pow_def fl_small_ints)

lemma clusterDist_same_latitude_100:
  "clusterDist \<lparr>lat = 0, lng = 0\<rparr> \<lparr>lat = 0, lng = 100\<rparr> = Num 0"
proof -
  from pow_approx_square_100 obtain d where d: "pow_approx (- 100) 2 = Num d" "0 < d"
    by blast
  have "integral 2" by (simp add: integral_def)
  with d show ?thesis
    by (simp add: clusterDist_def js_sub_def Math_pow_def fl_small_ints)
qed

text \<open>
  What the two loops do with two posts of different ids: one cluster at the mean
  coordinate with count 2 when the computed distance is below the threshold, two single
  markers otherwise.
\<close>

lemma clusterLoop_two_posts:
  "encId a \<noteq> encId b \<Longrightarrow>
     clusterLoop T [a, b] [a, b] (\<lparr>clusters = [], singles = []\<rparr>, {}) =
       (if below (clusterDist (location a) (location b)) T
        then \<lparr>clusters =
                [\<lparr>clusterId = ''cluster-'' @ encId a,
                  clusterLat = js_div (js_add (js_add (Num 0) (Num (lat (location a))))
                                         (Num (lat (location b)))) 2,
                  clusterLng = js_div (js_add (js_add (Num 0) (Num (lng (location a))))
                                         (Num (lng (location b)))) 2,
                  clusterCount = 2\<rparr>],
              singles = []\<rparr>
        else \<lparr>clusters = [], singles = [a, b]\<rparr>)"
  by (auto simp: Let_def numeral_2_eq_2)

text \<open>
  C5 does not hold of the distance the source computes. Two own posts published at the
  same place, at distance zero, come out as two single markers at every zoom level;
  two own posts on the same latitude and a hundred degrees of longitude apart come out
  as one cluster of two.
\<close>

theorem clustering_ignores_distance:
  "clusteredMarkers gd R
     (sample_state\<lparr>mapZoom := z,
                   myEncounters := [sample_post ''a'' 0 0 PENDING, sample_post ''b'' 0 0 PENDING]\<rparr>)
     = \<lparr>clusters = [], singles = [sample_post ''a'' 0 0 PENDING, sample_post ''b'' 0 0 PENDING]\<rparr> \<and>
   clusteredMarkers gd R
     (sample_state\<lparr>mapZoom := z,
                   myEncounters := [sample_post ''a'' 0 0 PENDING, sample_post ''b'' 0 100 PENDING]\<rparr>)
     = \<lparr>clusters = [\<lparr>clusterId = ''cluster-a'', clusterLat = Num 0, clusterLng = Num 50,
                      clusterCount = 2\<rparr>],
        singles = []\<rparr>"
proof -
  have thr: "0 < zoomThreshold z" "\<not> 1 < zoomThreshold z"
    using zoomThreshold_bounds [of z] by simp_all
  have same: "clusterDist \<lparr>lat = 0, lng = 0\<rparr> \<lparr>lat = 0, lng = 0\<rparr> = Num 1"
    by (rule clusterDist_same_place)
  have ms: "markersToShow gd R (sample_state\<lparr>mapZoom := z, myEncounters := ps\<rparr>) = ps" for ps
    by (simp add: markersToShow_def visibleEncounters_def sample_state_def)
  have ids: "encId (sample_post ''a'' 0 0 PENDING) \<noteq> encId (sample_post ''b'' x y PENDING)" for x y
    by (simp add: sample_post_def)
  have loc: "location (sample_post i x y st) = \<lparr>lat = x, lng = y\<rparr>"
            "encId (sample_post i x y st) = i" for i x y st
    by (simp_all add: sample_post_def)
  show ?thesis
    by (simp add: clusteredMarkers_def ms Let_def clusterLoop_two_posts [OF ids] loc same
          clusterDist_same_latitude_100 thr fl_small_ints)
qed

end
